theory Spec2Isabelle
  imports Main
begin

section \<open>JavaScript values, documents and the document store\<close>

text \<open>
  The server (\<^verbatim>\<open>src/unnamed/part_003\<close>) is an Express application over one MongoDB
  database.  A request handler is modelled as a function from the request and the
  database state to a response and the new database state.

  Values are JSON/BSON values.  Numbers are modelled as integers (quantities, counters,
  identifiers); a date is its time in milliseconds; a missing property
  (\<^verbatim>\<open>undefined\<close>) is \<open>None\<close> of an option.  An ObjectId is a natural number (read as
  its 96-bit value).  The scalar fields of a request (ids, reasons, actions, notes) are
  strings, with the empty string for a field that is absent; the item lists of the stock
  requests are arbitrary JSON values, since the handlers check their shape themselves.
  \<open>now\<close> is the time that \<^verbatim>\<open>new Date()\<close> and \<^verbatim>\<open>Date.now()\<close> return while a
  request is served.
\<close>

type_synonym oid = nat

datatype jsval =
    JNull
  | JBool bool
  | JNum int
  | JStr string
  | JDate int
  | JId oid
  | JArr "jsval list"
  | JObj "(string \<times> jsval) list"

type_synonym doc = "(string \<times> jsval) list"

text \<open>Truthiness of a value, and of a possibly undefined one.\<close>

fun truthy :: "jsval \<Rightarrow> bool" where
  "truthy JNull = False"
| "truthy (JBool b) = b"
| "truthy (JNum n) = (n \<noteq> 0)"
| "truthy (JStr s) = (s \<noteq> [])"
| "truthy (JDate t) = True"
| "truthy (JId i) = True"
| "truthy (JArr xs) = True"
| "truthy (JObj fs) = True"

fun truthy_opt :: "jsval option \<Rightarrow> bool" where
  "truthy_opt None = False"
| "truthy_opt (Some v) = truthy v"

text \<open>\<^verbatim>\<open>a || b\<close> and \<^verbatim>\<open>a && b\<close> on possibly undefined values.\<close>

definition js_or :: "jsval option \<Rightarrow> jsval option \<Rightarrow> jsval option" where
  "js_or a b = (if truthy_opt a then a else b)"

definition js_and :: "jsval option \<Rightarrow> jsval option \<Rightarrow> jsval option" where
  "js_and a b = (if truthy_opt a then b else a)"

text \<open>Property access \<^verbatim>\<open>v.k\<close> on a truthy value: only objects have own data properties.\<close>

fun js_prop :: "jsval option \<Rightarrow> string \<Rightarrow> jsval option" where
  "js_prop (Some (JObj fs)) k = map_of fs k"
| "js_prop _ k = None"

text \<open>
  The driver writes an \<^verbatim>\<open>undefined\<close> property of an inserted document as
  \<^verbatim>\<open>null\<close>.
\<close>

fun stored :: "jsval option \<Rightarrow> jsval" where
  "stored None = JNull"
| "stored (Some v) = v"

text \<open>Assignment \<^verbatim>\<open>d.k = v\<close> and \<^verbatim>\<open>delete d.k\<close> on an object.\<close>

fun set_field :: "string \<Rightarrow> jsval \<Rightarrow> doc \<Rightarrow> doc" where
  "set_field k v [] = [(k, v)]"
| "set_field k v ((k', v') # d) =
     (if k = k' then (k, v) # d else (k', v') # set_field k v d)"

fun set_fields :: "doc \<Rightarrow> doc \<Rightarrow> doc" where
  "set_fields [] d = d"
| "set_fields ((k, v) # kvs) d = set_fields kvs (set_field k v d)"

definition delete_field :: "string \<Rightarrow> doc \<Rightarrow> doc" where
  "delete_field k d = filter (\<lambda>kv. fst kv \<noteq> k) d"

text \<open>\<^verbatim>\<open>t || null\<close> for a string \<open>t\<close> of the request body.\<close>

definition str_or_null :: "string \<Rightarrow> jsval" where
  "str_or_null s = (if s = [] then JNull else JStr s)"

subsection \<open>ObjectIds\<close>

definition hex_digits :: string where
  "hex_digits = ''0123456789abcdef''"

definition hex_val :: "char \<Rightarrow> nat option" where
  "hex_val c = map_of (zip ''0123456789abcdefABCDEF''
     [0, 1, 2, 3, 4, 5, 6, 7, 8, 9, 10, 11, 12, 13, 14, 15, 10, 11, 12, 13, 14, 15]) c"

fun hex_value :: "nat \<Rightarrow> string \<Rightarrow> nat option" where
  "hex_value acc [] = Some acc"
| "hex_value acc (c # cs) =
     (case hex_val c of None \<Rightarrow> None | Some d \<Rightarrow> hex_value (16 * acc + d) cs)"

text \<open>
  \<^verbatim>\<open>new ObjectId(s)\<close> on a string: a 24 character hexadecimal string gives the id,
  anything else throws (\<open>None\<close>).  (Older versions of the driver also read a string of
  12 characters as the 12 bytes of an id; the model follows the current ones.)
\<close>

definition oid_of_string :: "string \<Rightarrow> oid option" where
  "oid_of_string s = (if length s = 24 then hex_value 0 s else None)"

definition hex_of_oid :: "oid \<Rightarrow> string" where
  "hex_of_oid n = map (\<lambda>i. hex_digits ! ((n div 16 ^ (23 - i)) mod 16)) [0..<24]"

text \<open>
  \<^verbatim>\<open>new ObjectId(v)\<close> on a value of a document or of a request body: an ObjectId is
  kept, a string is parsed, an object with a string \<^verbatim>\<open>id\<close> property is read through
  that property, \<^verbatim>\<open>undefined\<close>, \<^verbatim>\<open>null\<close> and numbers make the driver generate an
  id of its own (which names no stored document), anything else throws.
\<close>

datatype oid_result = Oid oid | Generated | Invalid

fun oid_of_val :: "jsval option \<Rightarrow> oid_result" where
  "oid_of_val None = Generated"
| "oid_of_val (Some JNull) = Generated"
| "oid_of_val (Some (JNum n)) = Generated"
| "oid_of_val (Some (JId i)) = Oid i"
| "oid_of_val (Some (JStr s)) = (case oid_of_string s of None \<Rightarrow> Invalid | Some i \<Rightarrow> Oid i)"
| "oid_of_val (Some (JObj fs)) =
     (case map_of fs ''id'' of
        Some (JStr s) \<Rightarrow> (case oid_of_string s of None \<Rightarrow> Invalid | Some i \<Rightarrow> Oid i)
      | _ \<Rightarrow> Invalid)"
| "oid_of_val (Some v) = Invalid"

subsection \<open>Decimal text of numbers\<close>

definition digit_char :: "nat \<Rightarrow> char" where
  "digit_char d = ''0123456789'' ! d"

fun show_nat :: "nat \<Rightarrow> string" where
  "show_nat n = (if n < 10 then [digit_char n] else show_nat (n div 10) @ [digit_char (n mod 10)])"

declare show_nat.simps [simp del]

definition show_int :: "int \<Rightarrow> string" where
  "show_int i = (if i < 0 then CHR ''-'' # show_nat (nat (- i)) else show_nat (nat i))"

subsection \<open>Collections\<close>

datatype cname =
    PendingOrders | AcceptedOrders | DeliveredOrders | DeniedOrders | ReturnedOrders
  | CancelledOrders | Orders | CancellationRequests | ReturnRequests
  | StaffNotifications | UserNotifications | StockReservations

fun cname_str :: "cname \<Rightarrow> string" where
  "cname_str PendingOrders = ''PendingOrders''"
| "cname_str AcceptedOrders = ''AcceptedOrders''"
| "cname_str DeliveredOrders = ''DeliveredOrders''"
| "cname_str DeniedOrders = ''DeniedOrders''"
| "cname_str ReturnedOrders = ''ReturnedOrders''"
| "cname_str CancelledOrders = ''CancelledOrders''"
| "cname_str Orders = ''Orders''"
| "cname_str CancellationRequests = ''CancellationRequests''"
| "cname_str ReturnRequests = ''ReturnRequests''"
| "cname_str StaffNotifications = ''StaffNotifications''"
| "cname_str UserNotifications = ''UserNotifications''"
| "cname_str StockReservations = ''StockReservations''"

text \<open>
  A product of the \<^verbatim>\<open>Products\<close> collection, with the two fields the stock
  operations read and write.
\<close>

record product =
  name :: string
  stockQuantity :: int

text \<open>
  The database.  A collection is the list of its documents in insertion order, each the
  \<^verbatim>\<open>_id\<close> with the other fields.  MongoDB keeps \<^verbatim>\<open>_id\<close> unique within a
  collection, so removing the entries with an id removes the one document that has it.
  \<open>next_id\<close> is the supply of ObjectIds that \<^verbatim>\<open>insertOne\<close> assigns to a document
  without \<^verbatim>\<open>_id\<close>.
\<close>

record db =
  colls :: "cname \<Rightarrow> (oid \<times> doc) list"
  products :: "oid \<rightharpoonup> product"
  next_id :: oid

definition find_one :: "cname \<Rightarrow> oid \<Rightarrow> db \<Rightarrow> doc option" where
  "find_one c i s = map_option (\<lambda>d. (''_id'', JId i) # d) (map_of (colls s c) i)"

definition insert_one :: "cname \<Rightarrow> doc \<Rightarrow> db \<Rightarrow> oid \<times> db" where
  "insert_one c d s =
     (next_id s, s\<lparr>colls := (colls s)(c := colls s c @ [(next_id s, d)]), next_id := Suc (next_id s)\<rparr>)"

definition delete_one :: "cname \<Rightarrow> oid \<Rightarrow> db \<Rightarrow> nat \<times> db" where
  "delete_one c i s =
     (case map_of (colls s c) i of
        None \<Rightarrow> (0, s)
      | Some d \<Rightarrow> (1, s\<lparr>colls := (colls s)(c := filter (\<lambda>e. fst e \<noteq> i) (colls s c))\<rparr>))"

text \<open>\<^verbatim>\<open>updateOne({_id: i}, {$set: kvs})\<close>.\<close>

definition update_one_set :: "cname \<Rightarrow> oid \<Rightarrow> doc \<Rightarrow> db \<Rightarrow> db" where
  "update_one_set c i kvs s =
     s\<lparr>colls := (colls s)(c := map (\<lambda>e. if fst e = i then (fst e, set_fields kvs (snd e)) else e)
                                   (colls s c))\<rparr>"

text \<open>The first of the listed collections that holds a document with the id.\<close>

fun find_first :: "cname list \<Rightarrow> oid \<Rightarrow> db \<Rightarrow> (cname \<times> doc) option" where
  "find_first [] i s = None"
| "find_first (c # cs) i s =
     (case find_one c i s of
        Some d \<Rightarrow> Some (c, d)
      | None \<Rightarrow> find_first cs i s)"

text \<open>
  Every stored id was handed out earlier, so the supply never repeats one.
\<close>

definition ids_fresh :: "db \<Rightarrow> bool" where
  "ids_fresh s \<longleftrightarrow> (\<forall>c. \<forall>i \<in> fst ` set (colls s c). i < next_id s)"

subsection \<open>Responses\<close>

text \<open>
  A response is a status code and a JSON body.  An exception caught by a handler's outer
  \<^verbatim>\<open>catch\<close> is answered with status 500; the handlers put its message into the
  \<^verbatim>\<open>details\<close> (or \<^verbatim>\<open>error\<close>) field of the body, which the model keeps as the
  exception itself in \<open>caught\<close>.
\<close>

datatype exn = BSONError | TypeError | Error string

record response =
  code :: nat
  body :: doc
  caught :: "exn option"

definition json :: "nat \<Rightarrow> doc \<Rightarrow> response" where
  "json c b = \<lparr>code = c, body = b, caught = None\<rparr>"

definition failed :: "doc \<Rightarrow> exn \<Rightarrow> response" where
  "failed b e = \<lparr>code = 500, body = b, caught = Some e\<rparr>"


section \<open>Order Move Engine: \<^verbatim>\<open>POST /api/orders/move\<close>\<close>

text \<open>
  The names a client may use for the collections.  (Property names that the object
  literal inherits, such as \<^verbatim>\<open>constructor\<close>, are not modelled.)
\<close>

definition collectionMapping :: "string \<Rightarrow> cname option" where
  "collectionMapping = map_of
     [(''orders'', PendingOrders),
      (''pending'', PendingOrders),
      (''accepted'', AcceptedOrders),
      (''delivered'', DeliveredOrders),
      (''denied'', DeniedOrders),
      (''returned'', ReturnedOrders)]"

text \<open>
  The \<^verbatim>\<open>switch (toCollection)\<close> that stamps the copy; \<open>now\<close> is the value of
  \<^verbatim>\<open>new Date()\<close> while the request is served.  A target without a case
  (\<^verbatim>\<open>'orders'\<close>) leaves the copy as it is.
\<close>

definition move_switch :: "int \<Rightarrow> string \<Rightarrow> string \<Rightarrow> string \<Rightarrow> string \<Rightarrow> doc \<Rightarrow> doc" where
  "move_switch now toCollection denialReason returnReason returnImage updatedOrder =
     (if toCollection = ''pending'' then
        set_fields [(''status'', JStr ''pending''), (''displayStatus'', JStr ''pending'')] updatedOrder
      else if toCollection = ''accepted'' then
        set_fields [(''status'', JStr ''approved''), (''displayStatus'', JStr ''approved''),
                    (''approvedAt'', JDate now)] updatedOrder
      else if toCollection = ''delivered'' then
        set_fields [(''status'', JStr ''delivered''), (''displayStatus'', JStr ''delivered''),
                    (''deliveredAt'', JDate now)] updatedOrder
      else if toCollection = ''denied'' then
        set_fields ([(''status'', JStr ''denied''), (''displayStatus'', JStr ''denied''),
                     (''deniedAt'', JDate now)]
                    @ (if denialReason \<noteq> [] then [(''denialReason'', JStr denialReason)] else []))
          updatedOrder
      else if toCollection = ''returned'' then
        set_fields ([(''status'', JStr ''returned''), (''displayStatus'', JStr ''returned''),
                     (''returnedAt'', JDate now)]
                    @ (if returnReason \<noteq> [] then [(''returnReason'', JStr returnReason)] else [])
                    @ (if returnImage \<noteq> [] then
                         [(''returnImage'', JStr returnImage), (''returnImageUploadedAt'', JDate now)]
                       else [])
                    @ [(''returnProcessedBy'', JStr ''staff''), (''returnProcessingDate'', JDate now)])
          updatedOrder
      else updatedOrder)"

definition move_failure :: doc where
  "move_failure = [(''error'', JStr ''Failed to move order between collections'')]"

text \<open>
  Validation, lookup of the order and construction of the copy: either the response that
  ends the request early, or the source and target collections, the order's id and the
  copy to insert.
\<close>

definition move_prepare ::
  "int \<Rightarrow> string \<Rightarrow> string \<Rightarrow> string \<Rightarrow> string \<Rightarrow> string \<Rightarrow> string \<Rightarrow> string \<Rightarrow> db
     \<Rightarrow> response + (cname \<times> cname \<times> oid \<times> doc)" where
  "move_prepare now orderId operation fromCollection toCollection denialReason returnReason
       returnImage s =
     (if orderId = [] \<or> operation = [] \<or> fromCollection = [] \<or> toCollection = [] then
        Inl (json 400 [(''error'', JStr
          ''Missing required fields: orderId, operation, fromCollection, toCollection'')])
      else case (collectionMapping fromCollection, collectionMapping toCollection) of
        (Some sourceCollection, Some targetCollection) \<Rightarrow>
          (case oid_of_string orderId of
             None \<Rightarrow> Inl (failed move_failure BSONError)
           | Some i \<Rightarrow>
               (case find_one sourceCollection i s of
                  None \<Rightarrow> Inl (json 404 [(''error'', JStr
                    (''Order not found in '' @ cname_str sourceCollection))])
                | Some order \<Rightarrow>
                    Inr (sourceCollection, targetCollection, i,
                      set_fields [(''updatedAt'', JDate now), (''lastModifiedBy'', JStr ''staff'')]
                        (move_switch now toCollection denialReason returnReason returnImage
                           (delete_field ''_id'' order)))))
      | _ \<Rightarrow> Inl (json 400 [(''error'', JStr ''Invalid collection names'')]))"

text \<open>
  Insert, delete and the compensating delete.  The handler awaits each database call, so
  other requests can write in between: \<open>env\<close> is what they do to the database between
  this request's \<^verbatim>\<open>insertOne\<close> and its \<^verbatim>\<open>deleteOne\<close>.  (An inserted id is an
  ObjectId, never falsy, so the \<^verbatim>\<open>!insertResult.insertedId\<close> branch is dead.)
\<close>

definition move_commit ::
  "(db \<Rightarrow> db) \<Rightarrow> string \<Rightarrow> string \<Rightarrow> string \<Rightarrow> string \<Rightarrow> cname \<Rightarrow> cname \<Rightarrow> oid \<Rightarrow> doc \<Rightarrow> db
     \<Rightarrow> response \<times> db" where
  "move_commit env operation toCollection returnReason returnImage sourceCollection
       targetCollection i updatedOrder s =
     (let (insertedId, s1) = insert_one targetCollection updatedOrder s;
          (deletedCount, s2) = delete_one sourceCollection i (env s1)
      in if deletedCount = 0 then
           (failed move_failure (Error ''Failed to remove order from source collection''),
            snd (delete_one targetCollection insertedId s2))
         else
           (json 200
              ([(''success'', JBool True),
                (''message'', JStr (''Order successfully moved to '' @ toCollection)),
                (''newOrderId'', JId insertedId),
                (''operation'', JStr operation)]
               @ (if returnReason \<noteq> [] then [(''returnReason'', JStr returnReason)] else [])
               @ (if returnImage \<noteq> [] then [(''returnImageSaved'', JBool True)] else [])),
            s2))"

definition move_order_with ::
  "(db \<Rightarrow> db) \<Rightarrow> int \<Rightarrow> string \<Rightarrow> string \<Rightarrow> string \<Rightarrow> string \<Rightarrow> string \<Rightarrow> string \<Rightarrow> string \<Rightarrow> db
     \<Rightarrow> response \<times> db" where
  "move_order_with env now orderId operation fromCollection toCollection denialReason
       returnReason returnImage s =
     (case move_prepare now orderId operation fromCollection toCollection denialReason
             returnReason returnImage s of
        Inl r \<Rightarrow> (r, s)
      | Inr (sourceCollection, targetCollection, i, updatedOrder) \<Rightarrow>
          move_commit env operation toCollection returnReason returnImage sourceCollection
            targetCollection i updatedOrder s)"



section \<open>Stock Ledger\<close>

text \<open>
  The items of a stock request are JSON values of the request body; the handlers check
  their shape themselves.  \<^verbatim>\<open>item.id\<close> on \<^verbatim>\<open>null\<close> throws a TypeError, on any other
  value that is not an object it is \<^verbatim>\<open>undefined\<close>.
\<close>




subsection \<open>\<^verbatim>\<open>PUT /api/products/bulk-stock\<close>\<close>





subsection \<open>\<^verbatim>\<open>POST /api/products/reserve-stock\<close>\<close>


subsection \<open>\<^verbatim>\<open>POST /api/products/restore-stock\<close>\<close>





section \<open>Request Workflow Engine\<close>

subsection \<open>Built-in conversions\<close>

text \<open>
  \<^verbatim>\<open>String(v)\<close> (also a template string's \<^verbatim>\<open>${v}\<close> and \<^verbatim>\<open>v.toString()\<close>) and
  \<^verbatim>\<open>Number(v)\<close>, with \<open>None\<close> for \<^verbatim>\<open>NaN\<close>.  The cases whose result depends on the
  JavaScript engine (the text of a date or an array, the number a string denotes) are
  parameters of the model: every theorem holds whatever they return.
\<close>

record builtins =
  String_of :: "jsval \<Rightarrow> string"
  Number_of :: "jsval \<Rightarrow> int option"

fun js_String :: "builtins \<Rightarrow> jsval \<Rightarrow> string" where
  "js_String E JNull = ''null''"
| "js_String E (JBool b) = (if b then ''true'' else ''false'')"
| "js_String E (JNum n) = show_int n"
| "js_String E (JStr t) = t"
| "js_String E (JId i) = hex_of_oid i"
| "js_String E (JObj fs) = ''[object Object]''"
| "js_String E v = String_of E v"

fun js_Number :: "builtins \<Rightarrow> jsval \<Rightarrow> int option" where
  "js_Number E JNull = Some 0"
| "js_Number E (JBool b) = Some (if b then 1 else 0)"
| "js_Number E (JNum n) = Some n"
| "js_Number E (JDate t) = Some t"
| "js_Number E (JObj fs) = None"
| "js_Number E v = Number_of E v"

definition to_lower_char :: "char \<Rightarrow> char" where
  "to_lower_char c =
     (case map_of (zip ''ABCDEFGHIJKLMNOPQRSTUVWXYZ'' ''abcdefghijklmnopqrstuvwxyz'') c of
        Some l \<Rightarrow> l
      | None \<Rightarrow> c)"

definition toLowerCase :: "string \<Rightarrow> string" where
  "toLowerCase t = map to_lower_char t"

text \<open>\<^verbatim>\<open>t.slice(-n)\<close>: the last \<open>n\<close> characters, or all of a shorter string.\<close>

definition slice_last :: "nat \<Rightarrow> string \<Rightarrow> string" where
  "slice_last n t = drop (length t - n) t"

subsection \<open>\<^verbatim>\<open>POST /api/orders/cancel-request\<close>\<close>

definition cancel_failure :: doc where
  "cancel_failure =
     [(''success'', JBool False), (''message'', JStr ''Failed to submit cancellation request'')]"

text \<open>The record written to \<^verbatim>\<open>CancellationRequests\<close>.\<close>

definition cancellationRequest ::
  "builtins \<Rightarrow> int \<Rightarrow> string \<Rightarrow> string \<Rightarrow> string \<Rightarrow> cname \<Rightarrow> jsval \<Rightarrow> doc \<Rightarrow> doc" where
  "cancellationRequest E now orderId reason additionalComments sourceCollection currentStatus
       originalOrder =
     (let f = map_of originalOrder; payment = f ''payment''; shipping = f ''shipping'' in
      [(''originalOrderId'', JStr orderId),
       (''userId'', stored (js_or (f ''userId'') (Some JNull))),
       (''userIdString'',
          (case f ''userId'' of
             None \<Rightarrow> JNull
           | Some JNull \<Rightarrow> JNull
           | Some u \<Rightarrow> JStr (js_String E u))),
       (''userIdNumber'',
          (case f ''userId'' of
             None \<Rightarrow> JNull
           | Some JNull \<Rightarrow> JNull
           | Some u \<Rightarrow> (case js_Number E u of None \<Rightarrow> JNull | Some n \<Rightarrow> JNum n))),
       (''orderNumber'',
          stored (js_or (f ''orderNumber'') (Some (JStr (''ORD-'' @ slice_last 6 orderId))))),
       (''customerName'',
          stored (js_or (js_or (f ''fullName'') (f ''buyerinfo'')) (Some (JStr ''N/A'')))),
       (''customerEmail'', stored (js_or (f ''email'') (Some (JStr ''N/A'')))),
       (''customerPhone'', stored (js_or (f ''phoneNumber'') (Some (JStr ''N/A'')))),
       (''itemsordered'', stored (js_or (f ''itemsordered'') (Some (JArr [])))),
       (''payment'', stored (js_or payment (Some JNull))),
       (''paymentMethod'',
          stored (js_or (js_or (f ''paymentMethod'') (js_and payment (js_prop payment ''method'')))
                    (Some JNull))),
       (''paymentType'',
          stored (js_or (js_or (f ''paymentType'') (js_and payment (js_prop payment ''type'')))
                    (Some JNull))),
       (''paymentSplitPercent'',
          stored (js_or (js_or (f ''paymentSplitPercent'')
                           (js_and payment (js_prop payment ''splitPercent'')))
                    (Some JNull))),
       (''paymentReference'',
          stored (js_or (js_or (f ''paymentReference'')
                           (js_and payment (js_prop payment ''reference'')))
                    (Some JNull))),
       (''paymentAmount'',
          stored (js_or (js_or (f ''paymentAmount'') (js_and payment (js_prop payment ''amount'')))
                    (Some JNull))),
       (''changeUponDelivery'',
          stored (js_or (js_or (f ''changeUponDelivery'')
                           (js_and payment (js_prop payment ''changeUponDelivery'')))
                    (Some JNull))),
       (''proofOfPayment'',
          stored (js_or (js_or (f ''proofOfPayment'') (js_and payment (js_prop payment ''proof'')))
                    (Some JNull))),
       (''reason'', JStr reason),
       (''additionalComments'', JStr additionalComments),
       (''originalOrderTotal'', stored (js_or (f ''total'') (Some (JNum 0)))),
       (''originalOrderDate'', stored (js_or (f ''orderDate'') (f ''createdAt''))),
       (''originalOrderStatus'', currentStatus),
       (''status'', JStr ''pending_review''),
       (''submittedAt'', JDate now),
       (''submittedBy'', JStr ''customer''),
       (''sourceCollection'', JStr (cname_str sourceCollection)),
       (''notes'', stored (js_or (f ''notes'') (Some (JStr [])))),
       (''address'', stored (js_or (f ''address'') (Some JNull))),
       (''shipping'', stored (js_or shipping (Some JNull))),
       (''phoneNumber'',
          stored (js_or (js_or (f ''phoneNumber'') (js_and shipping (js_prop shipping ''phoneNumber'')))
                    (Some JNull)))])"

text \<open>
  Validation, lookup of the order in \<^verbatim>\<open>PendingOrders\<close> then \<^verbatim>\<open>AcceptedOrders\<close>, the
  status check and the request record: either the response that ends the request early,
  or the source collection, the order's id and the record to insert.  A status that is
  not a string has no \<^verbatim>\<open>toLowerCase\<close>, which throws.
\<close>

definition cancel_prepare ::
  "builtins \<Rightarrow> int \<Rightarrow> string \<Rightarrow> string \<Rightarrow> string \<Rightarrow> db \<Rightarrow> response + (cname \<times> oid \<times> doc)" where
  "cancel_prepare E now orderId reason additionalComments s =
     (if orderId = [] \<or> reason = [] then
        Inl (json 400 [(''success'', JBool False),
                       (''message'', JStr ''Missing required fields: orderId and reason'')])
      else case oid_of_string orderId of
        None \<Rightarrow> Inl (failed cancel_failure BSONError)
      | Some i \<Rightarrow>
          (case find_first [PendingOrders, AcceptedOrders] i s of
             None \<Rightarrow>
               Inl (json 404 [(''success'', JBool False),
                              (''message'', JStr ''Order not found or cannot be cancelled'')])
           | Some (sourceCollection, originalOrder) \<Rightarrow>
               (case stored (js_or (map_of originalOrder ''status'') (Some (JStr ''pending''))) of
                  JStr currentStatus \<Rightarrow>
                    if toLowerCase currentStatus \<notin> set [''pending'', ''active'', ''approved''] then
                      Inl (json 400 [(''success'', JBool False),
                                     (''message'', JStr ''This order cannot be cancelled at this stage'')])
                    else
                      Inr (sourceCollection, i,
                        cancellationRequest E now orderId reason additionalComments sourceCollection
                          (JStr currentStatus) originalOrder)
                | _ \<Rightarrow> Inl (failed cancel_failure TypeError))))"

definition cancel_notification :: "builtins \<Rightarrow> int \<Rightarrow> string \<Rightarrow> string \<Rightarrow> oid \<Rightarrow> doc \<Rightarrow> doc" where
  "cancel_notification E now orderId reason insertedId request =
     [(''id'', JStr (''cancel_'' @ hex_of_oid insertedId @ ''_'' @ show_int now)),
      (''title'', JStr ([CHR 0xF0, CHR 0x9F, CHR 0x9A, CHR 0xAB] @ '' New Cancellation Request'')),
      (''message'', JStr (js_String E (stored (map_of request ''customerName''))
         @ '' requested to cancel order '' @ js_String E (stored (map_of request ''orderNumber'')))),
      (''type'', JStr ''cancellation_request''),
      (''orderId'', JStr orderId),
      (''requestId'', JId insertedId),
      (''customerName'', stored (map_of request ''customerName'')),
      (''customerEmail'', stored (map_of request ''customerEmail'')),
      (''orderNumber'', stored (map_of request ''orderNumber'')),
      (''reason'', JStr reason),
      (''read'', JBool False),
      (''createdAt'', JDate now),
      (''priority'', JStr ''high'')]"

text \<open>
  Insert of the request, removal of the order with the compensating delete, and the staff
  notification.  \<open>env\<close> is what other requests do to the database between this
  request's \<^verbatim>\<open>insertOne\<close> and its \<^verbatim>\<open>deleteOne\<close>.
\<close>

definition cancel_commit ::
  "(db \<Rightarrow> db) \<Rightarrow> builtins \<Rightarrow> int \<Rightarrow> string \<Rightarrow> string \<Rightarrow> cname \<Rightarrow> oid \<Rightarrow> doc \<Rightarrow> db \<Rightarrow> response \<times> db" where
  "cancel_commit env E now orderId reason sourceCollection i request s =
     (let (insertedId, s1) = insert_one CancellationRequests request s;
          (deletedCount, s2) = delete_one sourceCollection i (env s1)
      in if deletedCount = 0 then
           (json 500
              [(''success'', JBool False),
               (''message'', JStr (''Failed to remove the original order after creating ''
                  @ ''the cancellation request. Please try again.''))],
            snd (delete_one CancellationRequests insertedId s2))
         else
           (json 200
              [(''success'', JBool True),
               (''message'', JStr ''Cancellation request submitted successfully''),
               (''requestId'', JId insertedId),
               (''status'', JStr ''pending_review'')],
            snd (insert_one StaffNotifications
                   (cancel_notification E now orderId reason insertedId request) s2)))"

definition cancel_request_with ::
  "(db \<Rightarrow> db) \<Rightarrow> builtins \<Rightarrow> int \<Rightarrow> string \<Rightarrow> string \<Rightarrow> string \<Rightarrow> db \<Rightarrow> response \<times> db" where
  "cancel_request_with env E now orderId reason additionalComments s =
     (case cancel_prepare E now orderId reason additionalComments s of
        Inl r \<Rightarrow> (r, s)
      | Inr (sourceCollection, i, request) \<Rightarrow>
          cancel_commit env E now orderId reason sourceCollection i request s)"

text \<open>The handler when no other request writes while it runs.\<close>

definition cancel_request ::
  "builtins \<Rightarrow> int \<Rightarrow> string \<Rightarrow> string \<Rightarrow> string \<Rightarrow> db \<Rightarrow> response \<times> db" where
  "cancel_request = cancel_request_with (\<lambda>s. s)"

subsection \<open>\<^verbatim>\<open>POST /api/orders/check-cancellation-requests\<close>\<close>

text \<open>
  A query condition \<^verbatim>\<open>{field: {$in: candidates}}\<close>: the field's value is one of the
  candidates, or an array with an element that is.  Values of different BSON types are
  never equal, so a string never matches an ObjectId.
\<close>

definition js_in :: "jsval list \<Rightarrow> jsval option \<Rightarrow> bool" where
  "js_in candidates v =
     (case v of
        None \<Rightarrow> False
      | Some (JArr xs) \<Rightarrow> JArr xs \<in> set candidates \<or> list_ex (\<lambda>x. x \<in> set candidates) xs
      | Some x \<Rightarrow> x \<in> set candidates)"

text \<open>
  The ids that \<^verbatim>\<open>new ObjectId(id)\<close> accepts; one that the driver generates itself
  equals no stored value and is left out.
\<close>

definition objectIds :: "jsval list \<Rightarrow> jsval list" where
  "objectIds orderIds =
     concat (map (\<lambda>v. case oid_of_val (Some v) of Oid i \<Rightarrow> [JId i] | _ \<Rightarrow> []) orderIds)"

definition pendingCancellations :: "jsval list \<Rightarrow> db \<Rightarrow> (oid \<times> doc) list" where
  "pendingCancellations orderIds s =
     filter (\<lambda>e. js_in (objectIds orderIds) (map_of (snd e) ''originalOrderId'')
               \<and> js_in [JStr ''pending_review'', JStr ''pending''] (map_of (snd e) ''status''))
       (colls s CancellationRequests)"

definition check_cancellation_requests :: "builtins \<Rightarrow> jsval option \<Rightarrow> db \<Rightarrow> response \<times> db" where
  "check_cancellation_requests E orderIds s =
     (case orderIds of
        Some (JArr ids) \<Rightarrow>
          (json 200
             [(''success'', JBool True),
              (''cancellationMap'', JObj
                 (fold (\<lambda>cancellation cancellationMap.
                          set_field (js_String E (stored (map_of (snd cancellation) ''originalOrderId'')))
                            (JBool True) cancellationMap)
                    (pendingCancellations ids s) []))],
           s)
      | _ \<Rightarrow>
          (json 400 [(''success'', JBool False), (''message'', JStr ''orderIds array is required'')],
           s))"


subsection \<open>\<^verbatim>\<open>PUT /api/orders/cancellation-request/:requestId\<close>\<close>

definition invalid_action :: doc where
  "invalid_action =
     [(''success'', JBool False),
      (''message'', JStr (''Invalid action. Must be 'approve' or 'reject'' @ [CHR 0x27]))]"

definition process_cancel_failure :: doc where
  "process_cancel_failure =
     [(''success'', JBool False), (''message'', JStr ''Failed to process cancellation request'')]"

text \<open>
  The approve branch: the first of \<^verbatim>\<open>PendingOrders\<close>, \<^verbatim>\<open>AcceptedOrders\<close> that still
  holds the original order gives the record for \<^verbatim>\<open>CancelledOrders\<close>; the order is then
  deleted there.  \<open>None\<close> when \<^verbatim>\<open>new ObjectId\<close> throws.
\<close>

definition move_to_cancelled :: "int \<Rightarrow> string \<Rightarrow> doc \<Rightarrow> db \<Rightarrow> db option" where
  "move_to_cancelled now requestId request s =
     (case oid_of_val (map_of request ''originalOrderId'') of
        Invalid \<Rightarrow> None
      | Generated \<Rightarrow> Some s
      | Oid i \<Rightarrow>
          (case find_first [PendingOrders, AcceptedOrders] i s of
             None \<Rightarrow> Some s
           | Some (collection, originalOrder) \<Rightarrow>
               (let cancelledOrder = delete_field ''_id''
                      (set_fields
                         [(''cancellationReason'', stored (map_of request ''reason'')),
                          (''cancelledAt'', JDate now),
                          (''cancellationProcessedBy'', JStr ''staff''),
                          (''cancellationRequestId'', JStr requestId)]
                         originalOrder)
                in Some (snd (delete_one collection i
                                (snd (insert_one CancelledOrders cancelledOrder s)))))))"

definition process_cancellation_request ::
  "int \<Rightarrow> string \<Rightarrow> string \<Rightarrow> string \<Rightarrow> db \<Rightarrow> response \<times> db" where
  "process_cancellation_request now requestId action staffNotes s =
     (if action \<notin> set [''approve'', ''reject''] then (json 400 invalid_action, s)
      else case oid_of_string requestId of
        None \<Rightarrow> (failed process_cancel_failure BSONError, s)
      | Some rid \<Rightarrow>
          (case find_one CancellationRequests rid s of
             None \<Rightarrow>
               (json 404 [(''success'', JBool False),
                          (''message'', JStr ''Cancellation request not found'')], s)
           | Some request \<Rightarrow>
               (let status = (if action = ''approve'' then ''approved'' else ''rejected'');
                    updateData =
                      [(''status'', JStr status),
                       (''processedAt'', JDate now),
                       (''processedBy'', JStr ''staff''),
                       (''staffNotes'', JStr staffNotes)];
                    s1 = update_one_set CancellationRequests rid updateData s;
                    done = json 200
                      [(''success'', JBool True),
                       (''message'', JStr (''Cancellation request '' @ action @ ''d successfully'')),
                       (''status'', JStr status)]
                in if action = ''approve'' then
                     (case move_to_cancelled now requestId request s1 of
                        None \<Rightarrow> (failed process_cancel_failure BSONError, s1)
                      | Some s2 \<Rightarrow> (done, s2))
                   else (done, s1))))"

subsection \<open>\<^verbatim>\<open>PUT /api/orders/return-request/:requestId\<close>\<close>

definition process_return_failure :: doc where
  "process_return_failure =
     [(''success'', JBool False), (''message'', JStr ''Failed to process return request'')]"

text \<open>
  The search for the original order; a \<^verbatim>\<open>new ObjectId\<close> that throws is caught inside
  the loop and the order counts as not found.
\<close>

definition locate_original :: "doc \<Rightarrow> db \<Rightarrow> (oid \<times> cname \<times> doc) option" where
  "locate_original returnRequest s =
     (case oid_of_val (map_of returnRequest ''originalOrderId'') of
        Oid i \<Rightarrow>
          map_option (\<lambda>(c, d). (i, c, d))
            (find_first [DeliveredOrders, AcceptedOrders, PendingOrders, Orders] i s)
      | _ \<Rightarrow> None)"

text \<open>\<^verbatim>\<open>originalOrder?.k\<close>.\<close>

definition opt_field :: "doc option \<Rightarrow> string \<Rightarrow> jsval option" where
  "opt_field d k = (case d of None \<Rightarrow> None | Some fs \<Rightarrow> map_of fs k)"

definition decisionStatus :: "string \<Rightarrow> string" where
  "decisionStatus action = (if action = ''approve'' then ''accepted'' else ''rejected'')"

definition archivedRecord ::
  "builtins \<Rightarrow> int \<Rightarrow> oid \<Rightarrow> string \<Rightarrow> string \<Rightarrow> string \<Rightarrow> doc \<Rightarrow> (oid \<times> cname \<times> doc) option \<Rightarrow> doc" where
  "archivedRecord E now requestObjectId action staffNotes returnImage returnRequest located =
     (let r = map_of returnRequest;
          originalOrder = map_option (\<lambda>(i, c, d). d) located;
          ord = opt_field originalOrder
      in
      [(''requestId'', JId requestObjectId),
       (''status'', JStr (decisionStatus action)),
       (''action'', JStr action),
       (''staffNotes'', JStr staffNotes),
       (''staffDecisionImage'', str_or_null returnImage),
       (''originalOrderId'', stored (js_or (r ''originalOrderId'') (Some JNull))),
       (''orderNumber'',
          stored (js_or (js_or (r ''orderNumber'') (ord ''orderNumber''))
                    (if truthy_opt (r ''originalOrderId'') then
                       Some (JStr (''ORD-''
                         @ slice_last 6 (js_String E (stored (r ''originalOrderId'')))))
                     else Some JNull))),
       (''customerName'',
          stored (js_or (js_or (js_or (js_or (r ''customerName'') (ord ''fullName''))
                                  (ord ''customerName''))
                           (ord ''buyerinfo''))
                    (Some (JStr ''N/A'')))),
       (''customerEmail'',
          stored (js_or (js_or (r ''customerEmail'') (ord ''email'')) (Some (JStr ''N/A'')))),
       (''customerPhone'',
          stored (js_or (js_or (r ''customerPhone'') (ord ''phoneNumber'')) (Some (JStr ''N/A'')))),
       (''returnType'', stored (js_or (r ''returnType'') (Some (JStr ''return'')))),
       (''customerReason'',
          stored (js_or (js_or (r ''reason'') (r ''returnReason'')) (Some (JStr [])))),
       (''selectedItems'',
          stored (js_or (js_or (js_or (r ''selectedItems'') (r ''itemsordered''))
                           (ord ''itemsordered''))
                    (Some (JArr [])))),
       (''customerImage'', stored (js_or (r ''returnImage'') (Some JNull))),
       (''staffDecision'', JStr (decisionStatus action)),
       (''originalOrderCollection'',
          (case located of None \<Rightarrow> JNull | Some (i, c, d) \<Rightarrow> JStr (cname_str c))),
       (''submittedAt'',
          stored (js_or (js_or (r ''submittedAt'') (r ''createdAt'')) (Some (JDate now)))),
       (''processedAt'', JDate now),
       (''processedBy'', JStr ''staff''),
       (''requestSnapshot'', JObj returnRequest),
       (''originalOrderSnapshot'',
          (case originalOrder of None \<Rightarrow> JNull | Some d \<Rightarrow> JObj d))])"

text \<open>
  \<^verbatim>\<open>returnRequest.userId || originalOrder?.userId || originalOrder?.customerId || null\<close>
\<close>

definition notified_user :: "doc \<Rightarrow> (oid \<times> cname \<times> doc) option \<Rightarrow> jsval" where
  "notified_user returnRequest located =
     (let ord = opt_field (map_option (\<lambda>(i, c, d). d) located) in
      stored (js_or (js_or (js_or (map_of returnRequest ''userId'') (ord ''userId''))
                       (ord ''customerId''))
                (Some JNull)))"

definition userNotification ::
  "builtins \<Rightarrow> int \<Rightarrow> string \<Rightarrow> string \<Rightarrow> string \<Rightarrow> doc \<Rightarrow> jsval \<Rightarrow> doc \<Rightarrow> doc" where
  "userNotification E now requestId action staffNotes returnRequest userId archived =
     (let isAccepted = (action = ''approve'');
          orderNumber = stored (map_of archived ''orderNumber'')
      in
      [(''userId'', userId),
       (''title'', JStr (if isAccepted then
            [CHR 0xE2, CHR 0x86, CHR 0xA9, CHR 0xEF, CHR 0xB8, CHR 0x8F] @ '' Return Request Approved''
          else [CHR 0xF0, CHR 0x9F, CHR 0x9A, CHR 0xAB] @ '' Return Request Rejected'')),
       (''message'', JStr (if isAccepted then
            ''Your return request for order '' @ js_String E orderNumber @ '' has been approved. ''
              @ (if staffNotes \<noteq> [] then ''Staff notes: '' @ staffNotes
                 else ''We will begin processing the return shortly.'')
          else
            ''Your return request for order '' @ js_String E orderNumber @ '' has been rejected. ''
              @ (if staffNotes \<noteq> [] then ''Reason: '' @ staffNotes
                 else ''Please contact us if you would like to discuss this decision.''))),
       (''type'', JStr (if isAccepted then ''order_return_approved'' else ''order_return_rejected'')),
       (''orderId'', stored (js_or (map_of returnRequest ''originalOrderId'') (Some JNull))),
       (''orderNumber'', orderNumber),
       (''requestId'', JStr requestId),
       (''returnType'', stored (map_of archived ''returnType'')),
       (''staffNotes'', str_or_null staffNotes),
       (''read'', JBool False),
       (''createdAt'', JDate now)])"

definition staffNotification ::
  "builtins \<Rightarrow> int \<Rightarrow> string \<Rightarrow> string \<Rightarrow> string \<Rightarrow> doc \<Rightarrow> oid \<Rightarrow> doc \<Rightarrow> doc" where
  "staffNotification E now requestId action staffNotes returnRequest insertedId archived =
     (let isAccepted = (action = ''approve'');
          orderNumber = stored (map_of archived ''orderNumber'');
          customerName = stored (map_of archived ''customerName'')
      in
      [(''title'', JStr (if isAccepted then
            [CHR 0xE2, CHR 0x9C, CHR 0x85] @ '' Return Request Processed (Approved)''
          else [CHR 0xE2, CHR 0x9D, CHR 0x8C] @ '' Return Request Processed (Rejected)'')),
       (''message'', JStr (''Return request for order '' @ js_String E orderNumber @ '' (''
          @ js_String E customerName @ '') has been ''
          @ (if isAccepted then ''approved'' else ''rejected'') @ ''. ''
          @ (if staffNotes \<noteq> [] then ''Notes: '' @ staffNotes else []))),
       (''type'', JStr (if isAccepted then ''return_processed_approved''
                        else ''return_processed_rejected'')),
       (''orderId'', stored (js_or (map_of returnRequest ''originalOrderId'') (Some JNull))),
       (''orderNumber'', orderNumber),
       (''requestId'', JStr requestId),
       (''customerName'', customerName),
       (''customerEmail'', stored (map_of archived ''customerEmail'')),
       (''returnType'', stored (map_of archived ''returnType'')),
       (''decision'', JStr (decisionStatus action)),
       (''staffNotes'', str_or_null staffNotes),
       (''archivedId'', JId insertedId),
       (''read'', JBool False),
       (''createdAt'', JDate now),
       (''priority'', JStr ''medium'')])"

text \<open>
  An \<^verbatim>\<open>insertOne\<close> inside its own \<^verbatim>\<open>try\<close>/\<^verbatim>\<open>catch\<close>: when the database rejects
  it (\<open>fails\<close>), the handler logs the error and goes on with the database unchanged.
\<close>

definition try_insert :: "bool \<Rightarrow> cname \<Rightarrow> doc \<Rightarrow> db \<Rightarrow> db" where
  "try_insert fails c d s = (if fails then s else snd (insert_one c d s))"

text \<open>
  The decision on a return request.  \<open>user_fails\<close> and \<open>staff_fails\<close> say whether the
  insert of the user notification and of the staff notification throw.  (The archive insert
  is acknowledged under the default write concern.)
\<close>

definition process_return_request ::
  "bool \<Rightarrow> bool \<Rightarrow> builtins \<Rightarrow> int \<Rightarrow> string \<Rightarrow> string \<Rightarrow> string \<Rightarrow> string \<Rightarrow> db \<Rightarrow> response \<times> db" where
  "process_return_request user_fails staff_fails E now requestId action staffNotes returnImage s =
     (if action \<notin> set [''approve'', ''reject''] then (json 400 invalid_action, s)
      else case oid_of_string requestId of
        None \<Rightarrow> (failed process_return_failure BSONError, s)
      | Some requestObjectId \<Rightarrow>
          (case find_one ReturnRequests requestObjectId s of
             None \<Rightarrow>
               (json 404 [(''success'', JBool False), (''message'', JStr ''Return request not found'')],
                s)
           | Some returnRequest \<Rightarrow>
               (let located = locate_original returnRequest s;
                    archived = archivedRecord E now requestObjectId action staffNotes returnImage
                                 returnRequest located;
                    (insertedId, s1) = insert_one ReturnedOrders archived s;
                    (deletedCount, s2) = delete_one ReturnRequests requestObjectId s1
                in if deletedCount = 0 then
                     (failed process_return_failure (Error ''Failed to remove original return request''),
                      snd (delete_one ReturnedOrders insertedId s2))
                   else
                     (let s3 = (case located of
                                  Some (i, c, d) \<Rightarrow>
                                    if action = ''approve'' then snd (delete_one c i s2) else s2
                                | None \<Rightarrow> s2);
                          userId = notified_user returnRequest located;
                          s4 = (if truthy userId then
                                  try_insert user_fails UserNotifications
                                    (userNotification E now requestId action staffNotes
                                       returnRequest userId archived) s3
                                else s3);
                          s5 = try_insert staff_fails StaffNotifications
                                 (staffNotification E now requestId action staffNotes
                                    returnRequest insertedId archived) s4
                      in (json 200
                            [(''success'', JBool True),
                             (''message'', JStr (''Return request '' @ action @ ''d successfully'')),
                             (''status'', JStr (decisionStatus action)),
                             (''archivedId'', JId insertedId)],
                          s5)))))"

section \<open>Derived quantities and example data\<close>

text \<open>
  The total quantity that the items of a stock request ask for product \<open>j\<close>.
\<close>

fun requested :: "jsval list \<Rightarrow> oid \<Rightarrow> int" where
  "requested [] j = 0"
| "requested (item # items) j =
     (case (oid_of_val (js_prop (Some item) ''id''), js_prop (Some item) ''quantity'') of
        (Oid i, Some (JNum quantity)) \<Rightarrow> (if i = j then quantity else 0)
      | _ \<Rightarrow> 0) + requested items j"


text \<open>
  Every stored cancellation request holds \<^verbatim>\<open>originalOrderId\<close> as a string, the way
  cancel-request (the only writer of the collection) stores it.
\<close>

definition string_order_ids :: "db \<Rightarrow> bool" where
  "string_order_ids s \<longleftrightarrow>
     list_all (\<lambda>e. case map_of (snd e) ''originalOrderId'' of Some (JStr t) \<Rightarrow> True | _ \<Rightarrow> False)
       (colls s CancellationRequests)"

text \<open>Two ids as the hexadecimal strings a client sends, and a stock item.\<close>

definition oidA :: string where
  "oidA = ''00000000000000000000000a''"


definition oidC :: string where
  "oidC = ''00000000000000000000000c''"



text \<open>
  A shop with one order in \<^verbatim>\<open>PendingOrders\<close>, and a request of another client that
  deletes that order (\<^verbatim>\<open>DELETE /api/orders/pending/:orderId\<close>).
\<close>

definition order0 :: doc where
  "order0 = [(''status'', JStr ''active''), (''userId'', JStr ''42''), (''total'', JNum 250)]"

definition shop0 :: db where
  "shop0 = \<lparr>colls = (\<lambda>c. [])(PendingOrders := [(10, order0)]),
     products = Map.empty, next_id = 12\<rparr>"

definition racing_delete :: "db \<Rightarrow> db" where
  "racing_delete s = snd (delete_one PendingOrders 10 s)"

text \<open>An engine whose \<^verbatim>\<open>Number\<close> reads the string \<^verbatim>\<open>"42"\<close> as 42.\<close>

definition engine0 :: builtins where
  "engine0 = \<lparr>String_of = (\<lambda>v. []), Number_of = (\<lambda>v. if v = JStr ''42'' then Some 42 else None)\<rparr>"

text \<open>
  Scenario C: the customer asks to cancel the order of \<open>shop0\<close>; \<open>request0\<close> is the
  record this creates and \<open>shop1\<close> the database afterwards.
\<close>

definition request0 :: doc where
  "request0 = cancellationRequest engine0 7 oidA ''changed my mind'' [] PendingOrders
                (JStr ''active'') ((''_id'', JId 10) # order0)"

definition shop1 :: db where
  "shop1 = snd (cancel_request engine0 7 oidA ''changed my mind'' [] shop0)"

text \<open>
  A return request as \<^verbatim>\<open>POST /api/orders/return-request\<close> stores it (it records no
  user id), for the delivered order 10.  In \<open>returns1\<close> the order is still in
  \<^verbatim>\<open>DeliveredOrders\<close>; in \<open>returns0\<close> it is in no collection any more.
\<close>

definition return_request0 :: doc where
  "return_request0 =
     [(''originalOrderId'', JStr oidA),
      (''orderNumber'', JStr ''ORD-00000a''),
      (''customerName'', JStr ''Ann''),
      (''customerEmail'', JStr ''ann@example.com''),
      (''customerPhone'', JStr ''N/A''),
      (''returnType'', JStr ''return''),
      (''selectedItems'', JArr [JObj [(''name'', JStr ''Widget''), (''quantity'', JNum 1)]]),
      (''reason'', JStr ''damaged''),
      (''additionalComments'', JStr []),
      (''returnImage'', JStr ''data:image/png;base64,AAAA''),
      (''originalOrderTotal'', JNum 250),
      (''originalOrderDate'', JNull),
      (''status'', JStr ''pending_review''),
      (''submittedAt'', JDate 5),
      (''submittedBy'', JStr ''customer''),
      (''sourceCollection'', JStr ''DeliveredOrders'')]"

definition delivered0 :: doc where
  "delivered0 = [(''status'', JStr ''delivered''), (''userId'', JStr ''42''), (''total'', JNum 250)]"


definition returns1 :: db where
  "returns1 = \<lparr>colls = (\<lambda>c. [])(DeliveredOrders := [(10, delivered0)],
                                 ReturnRequests := [(12, return_request0)]),
     products = Map.empty, next_id = 13\<rparr>"

section \<open>Properties\<close>

subsection \<open>Documents, collections and example data\<close>

lemma map_of_set_field:
  "map_of (set_field k v d) k' = (if k' = k then Some v else map_of d k')"
  by (induction d) auto

lemma map_of_filter_fst:
  "map_of (filter (\<lambda>e. fst e \<noteq> i) xs) j = (if j = i then None else map_of xs j)"
  by (induction xs) auto

lemma map_of_snoc:
  "map_of (xs @ [(n, d)]) j =
     (case map_of xs j of Some v \<Rightarrow> Some v | None \<Rightarrow> if j = n then Some d else None)"
  by (induction xs) auto

lemma fresh_lookup: "ids_fresh s \<Longrightarrow> map_of (colls s c) (next_id s) = None"
  by (force simp: ids_fresh_def map_of_eq_None_iff)


lemma oidA_parse: "oid_of_string oidA = Some 10"
  by (simp add: oid_of_string_def hex_val_def oidA_def)


lemma oidA_ne: "oidA \<noteq> []"
  by (simp add: oidA_def)



lemma find_first_Some:
  "find_first cs i s = Some (c, d) \<Longrightarrow> c \<in> set cs \<and> find_one c i s = Some d"
  by (induction cs) (auto split: option.splits)


lemma delete_one_colls:
  "colls (snd (delete_one c i s)) c' =
     (if c' = c then filter (\<lambda>e. fst e \<noteq> i) (colls s c) else colls s c')"
proof (cases "map_of (colls s c) i")
  case None
  then have "\<forall>e \<in> set (colls s c). fst e \<noteq> i"
    by (force simp: map_of_eq_None_iff)
  then have "filter (\<lambda>e. fst e \<noteq> i) (colls s c) = colls s c"
    by (simp add: filter_id_conv)
  with None show ?thesis by (simp add: delete_one_def)
next
  case (Some d)
  then show ?thesis by (simp add: delete_one_def)
qed

lemma insert_one_colls:
  "colls (snd (insert_one c d s)) c' =
     (if c' = c then colls s c @ [(next_id s, d)] else colls s c')"
  by (simp add: insert_one_def)

lemma insert_one_fst: "fst (insert_one c d s) = next_id s"
  by (simp add: insert_one_def)

lemma insert_one_next: "next_id (snd (insert_one c d s)) = Suc (next_id s)"
  by (simp add: insert_one_def)

lemma delete_one_fst:
  "fst (delete_one c i s) = (if map_of (colls s c) i = None then 0 else 1)"
  by (simp add: delete_one_def split: option.splits)

lemma delete_one_next: "next_id (snd (delete_one c i s)) = next_id s"
  by (simp add: delete_one_def split: option.splits)

lemma oidC_parse: "oid_of_string oidC = Some 12"
  by (simp add: oid_of_string_def hex_val_def oidC_def)

lemma map_of_update_entry:
  "map_of (map (\<lambda>e. if fst e = i then (fst e, f (snd e)) else e) xs) j =
     (if j = i then map_option f (map_of xs i) else map_of xs j)"
  by (induction xs) auto

lemma update_one_set_colls:
  "colls (update_one_set c i kvs s) c' =
     (if c' = c then map (\<lambda>e. if fst e = i then (fst e, set_fields kvs (snd e)) else e) (colls s c)
      else colls s c')"
  by (simp add: update_one_set_def)

subsection \<open>Order Move Engine\<close>


lemma shop0_order: "map_of (colls shop0 PendingOrders) 10 = Some order0"
  by (simp add: shop0_def)

lemma move_prepare_accept:
  assumes present: "map_of (colls s PendingOrders) i = Some d"
    and oid: "oid_of_string orderId = Some i"
    and op: "operation \<noteq> []"
  shows "move_prepare now orderId operation ''pending'' ''accepted'' denialReason returnReason
           returnImage s
     = Inr (PendingOrders, AcceptedOrders, i,
         set_fields [(''updatedAt'', JDate now), (''lastModifiedBy'', JStr ''staff'')]
           (set_fields [(''status'', JStr ''approved''), (''displayStatus'', JStr ''approved''),
                    (''approvedAt'', JDate now)] (delete_field ''_id'' ((''_id'', JId i) # d))))"
proof -
  from oid have ne: "orderId \<noteq> []" by (auto simp: oid_of_string_def)
  have m1: "collectionMapping ''pending'' = Some PendingOrders"
    by (simp add: collectionMapping_def)
  have m2: "collectionMapping ''accepted'' = Some AcceptedOrders"
    by (simp add: collectionMapping_def)
  have sw: "move_switch now ''accepted'' denialReason returnReason returnImage x =
      set_fields [(''status'', JStr ''approved''), (''displayStatus'', JStr ''approved''),
                  (''approvedAt'', JDate now)] x" for x
    by (simp add: move_switch_def)
  show ?thesis
    unfolding move_prepare_def
    by (simp add: ne op m1 m2 oid find_one_def present sw del: set_fields.simps)
qed




text \<open>
  C3.  Whenever a move has inserted the copy into the target collection and the delete
  of the original then deletes no document (another request removed the order in
  between), the handler deletes the inserted copy again and answers with status 500:
  the response carries no \<^verbatim>\<open>success\<close> field and no document with the inserted id is
  left in the target collection.
\<close>

theorem move_rollback:
  assumes prep: "move_prepare now orderId operation fromCollection toCollection denialReason
                   returnReason returnImage s = Inr (src, tgt, i, upd)"
    and zero: "fst (delete_one src i (env (snd (insert_one tgt upd s)))) = 0"
    and run: "move_order_with env now orderId operation fromCollection toCollection denialReason
                   returnReason returnImage s = (r, s')"
  shows "code r = 500 \<and> caught r = Some (Error ''Failed to remove order from source collection'')
       \<and> map_of (body r) ''success'' = None
       \<and> map_of (body r) ''error'' = Some (JStr ''Failed to move order between collections'')
       \<and> map_of (colls s' tgt) (fst (insert_one tgt upd s)) = None"
  using run zero
  by (auto simp: move_order_with_def prep move_commit_def failed_def move_failure_def
      delete_one_def Let_def map_of_filter_fst split: prod.splits option.splits if_splits)

text \<open>
  The order of \<open>shop0\<close> is deleted by another request after the copy was inserted: the
  move answers 500 and the copy (id 12) is gone from \<^verbatim>\<open>AcceptedOrders\<close>.
\<close>

theorem move_rollback_witness:
  "(\<exists>upd. move_prepare 7 oidA ''accept'' ''pending'' ''accepted'' [] [] [] shop0
            = Inr (PendingOrders, AcceptedOrders, 10, upd)
         \<and> fst (delete_one PendingOrders 10
                  (racing_delete (snd (insert_one AcceptedOrders upd shop0)))) = 0)
   \<and> code (fst (move_order_with racing_delete 7 oidA ''accept'' ''pending'' ''accepted'' [] [] []
                  shop0)) = 500
   \<and> map_of (colls (snd (move_order_with racing_delete 7 oidA ''accept'' ''pending'' ''accepted''
                           [] [] [] shop0)) AcceptedOrders) 12 = None"
proof -
  have op: "''accept'' \<noteq> []" by simp
  note prep = move_prepare_accept[OF shop0_order oidA_parse op, of 7 "[]" "[]" "[]"]
  have zero: "fst (delete_one PendingOrders 10
                (racing_delete (snd (insert_one AcceptedOrders upd shop0)))) = 0" for upd
    by (simp add: racing_delete_def delete_one_def insert_one_def shop0_def)
  have n: "fst (insert_one AcceptedOrders upd shop0) = 12" for upd
    by (simp add: insert_one_def shop0_def)
  show ?thesis
    using move_rollback[where env = racing_delete, OF prep zero surjective_pairing] prep zero n
    by simp
qed

subsection \<open>Bulk stock decrement\<close>







subsection \<open>Reserve and restore\<close>







subsection \<open>Cancellation request\<close>

lemma cancel_prepare_Inr:
  assumes prep: "cancel_prepare E now orderId reason additionalComments s = Inr (src, i, request)"
  shows "\<exists>order currentStatus.
           oid_of_string orderId = Some i \<and> orderId \<noteq> [] \<and> reason \<noteq> []
           \<and> find_first [PendingOrders, AcceptedOrders] i s = Some (src, order)
           \<and> request = cancellationRequest E now orderId reason additionalComments src
                          (JStr currentStatus) order"
  using prep
  by (auto simp: cancel_prepare_def split: if_splits option.splits jsval.splits prod.splits)

lemma cancel_request_fields:
  "map_of (cancellationRequest E now orderId reason additionalComments src currentStatus order)
      ''status'' = Some (JStr ''pending_review'')"
  "map_of (cancellationRequest E now orderId reason additionalComments src currentStatus order)
      ''originalOrderId'' = Some (JStr orderId)"
  "map_of (cancellationRequest E now orderId reason additionalComments src currentStatus order)
      ''userIdString'' =
     Some (case map_of order ''userId'' of
             None \<Rightarrow> JNull | Some JNull \<Rightarrow> JNull | Some u \<Rightarrow> JStr (js_String E u))"
  "map_of (cancellationRequest E now orderId reason additionalComments src currentStatus order)
      ''userIdNumber'' =
     Some (case map_of order ''userId'' of
             None \<Rightarrow> JNull | Some JNull \<Rightarrow> JNull
           | Some u \<Rightarrow> (case js_Number E u of None \<Rightarrow> JNull | Some n \<Rightarrow> JNum n))"
  "map_of (cancellationRequest E now orderId reason additionalComments src currentStatus order)
      ''itemsordered'' = Some (stored (js_or (map_of order ''itemsordered'') (Some (JArr []))))"
  "map_of (cancellationRequest E now orderId reason additionalComments src currentStatus order)
      ''payment'' = Some (stored (js_or (map_of order ''payment'') (Some JNull)))"
  "map_of (cancellationRequest E now orderId reason additionalComments src currentStatus order)
      ''originalOrderTotal'' = Some (stored (js_or (map_of order ''total'') (Some (JNum 0))))"
  "map_of (cancellationRequest E now orderId reason additionalComments src currentStatus order)
      ''sourceCollection'' = Some (JStr (cname_str src))"
  by (simp_all add: cancellationRequest_def Let_def)




lemma cancel_prepare_shop0:
  "reason \<noteq> [] \<Longrightarrow>
   cancel_prepare E now oidA reason additionalComments shop0 =
     Inr (PendingOrders, 10,
       cancellationRequest E now oidA reason additionalComments PendingOrders (JStr ''active'')
         ((''_id'', JId 10) # order0))"
  by (simp add: cancel_prepare_def oidA_parse oidA_ne find_one_def shop0_def order0_def js_or_def
      toLowerCase_def to_lower_char_def)


subsection \<open>Decision on a cancellation request\<close>

lemma shop1_run:
  "cancel_request engine0 7 oidA ''changed my mind'' [] shop0 =
     (json 200
        [(''success'', JBool True),
         (''message'', JStr ''Cancellation request submitted successfully''),
         (''requestId'', JId 12),
         (''status'', JStr ''pending_review'')],
      shop1)"
proof -
  have r: "''changed my mind'' \<noteq> []" by simp
  have one: "fst (delete_one PendingOrders 10 (snd (insert_one CancellationRequests request0 shop0)))
               = 1"
    by (simp add: delete_one_fst insert_one_colls shop0_def)
  have n: "next_id shop0 = 12" by (simp add: shop0_def)
  have "fst (cancel_request engine0 7 oidA ''changed my mind'' [] shop0) = json 200
        [(''success'', JBool True),
         (''message'', JStr ''Cancellation request submitted successfully''),
         (''requestId'', JId 12),
         (''status'', JStr ''pending_review'')]"
    by (simp add: cancel_request_def cancel_request_with_def cancel_prepare_shop0[OF r]
        cancel_commit_def case_prod_beta insert_one_fst one n request0_def[symmetric])
  then show ?thesis
    by (simp add: shop1_def prod_eq_iff)
qed

lemma shop1_colls:
  "colls shop1 c =
     (if c = CancellationRequests then [(12, request0)]
      else if c = StaffNotifications then
        [(13, cancel_notification engine0 7 oidA ''changed my mind'' 12 request0)]
      else [])"
proof -
  have r: "''changed my mind'' \<noteq> []" by simp
  have one: "fst (delete_one PendingOrders 10 (snd (insert_one CancellationRequests request0 shop0)))
               = 1"
    by (simp add: delete_one_fst insert_one_colls shop0_def)
  have n: "next_id shop0 = 12" by (simp add: shop0_def)
  have s1: "shop1 = snd (insert_one StaffNotifications
                   (cancel_notification engine0 7 oidA ''changed my mind'' 12 request0)
                   (snd (delete_one PendingOrders 10
                      (snd (insert_one CancellationRequests request0 shop0)))))"
    by (simp add: shop1_def cancel_request_def cancel_request_with_def cancel_prepare_shop0[OF r]
        cancel_commit_def case_prod_beta insert_one_fst one request0_def[symmetric] n)
  show ?thesis
    unfolding s1
    by (simp add: insert_one_colls delete_one_colls insert_one_next delete_one_next shop0_def)
qed

lemma request0_fields:
  "map_of request0 ''status'' = Some (JStr ''pending_review'')"
  "map_of request0 ''originalOrderId'' = Some (JStr oidA)"
  by (simp_all add: request0_def cancellationRequest_def Let_def)

text \<open>
  C7.  A decision \<^verbatim>\<open>reject\<close> on an existing cancellation request answers with
  status \<^verbatim>\<open>rejected\<close>, sets the request's status to \<^verbatim>\<open>rejected\<close>, and changes no
  other collection: no order is recreated, and an order absent from a partition before
  the decision is absent from it afterwards.
\<close>

theorem reject_keeps_order_removed:
  assumes oid: "oid_of_string requestId = Some rid"
    and found: "map_of (colls s CancellationRequests) rid = Some request"
  shows "code (fst (process_cancellation_request now requestId ''reject'' staffNotes s)) = 200
       \<and> map_of (body (fst (process_cancellation_request now requestId ''reject'' staffNotes s)))
            ''status'' = Some (JStr ''rejected'')
       \<and> (\<exists>d. map_of (colls (snd (process_cancellation_request now requestId ''reject'' staffNotes s))
                   CancellationRequests) rid = Some d
              \<and> map_of d ''status'' = Some (JStr ''rejected''))
       \<and> (\<forall>c. c \<noteq> CancellationRequests \<longrightarrow>
             colls (snd (process_cancellation_request now requestId ''reject'' staffNotes s)) c
               = colls s c)
       \<and> (\<forall>c i. c \<noteq> CancellationRequests \<and> find_one c i s = None \<longrightarrow>
             find_one c i (snd (process_cancellation_request now requestId ''reject'' staffNotes s))
               = None)"
proof -
  let ?upd = "[(''status'', JStr ''rejected''), (''processedAt'', JDate now),
               (''processedBy'', JStr ''staff''), (''staffNotes'', JStr staffNotes)]"
  have run: "process_cancellation_request now requestId ''reject'' staffNotes s =
      (json 200 [(''success'', JBool True),
                 (''message'', JStr (''Cancellation request '' @ ''reject'' @ ''d successfully'')),
                 (''status'', JStr ''rejected'')],
       update_one_set CancellationRequests rid ?upd s)"
    by (simp add: process_cancellation_request_def oid find_one_def found Let_def
        del: set_fields.simps)
  have st: "map_of (set_fields ?upd request) ''status'' = Some (JStr ''rejected'')"
    by (simp add: map_of_set_field)
  show ?thesis
    unfolding run using found st
    by (simp add: json_def update_one_set_colls map_of_update_entry find_one_def
        del: set_fields.simps)
qed

text \<open>
  Scenario D: the request of Scenario C is rejected; \<^verbatim>\<open>PendingOrders\<close>,
  \<^verbatim>\<open>AcceptedOrders\<close> and \<^verbatim>\<open>CancelledOrders\<close> stay empty.
\<close>

theorem reject_keeps_order_removed_witness:
  "oid_of_string oidC = Some 12 \<and> map_of (colls shop1 CancellationRequests) 12 = Some request0
   \<and> code (fst (process_cancellation_request 9 oidC ''reject'' [] shop1)) = 200
   \<and> colls (snd (process_cancellation_request 9 oidC ''reject'' [] shop1)) PendingOrders = []
   \<and> colls (snd (process_cancellation_request 9 oidC ''reject'' [] shop1)) AcceptedOrders = []
   \<and> colls (snd (process_cancellation_request 9 oidC ''reject'' [] shop1)) CancelledOrders = []
   \<and> find_one PendingOrders 10 (snd (process_cancellation_request 9 oidC ''reject'' [] shop1)) = None"
proof -
  have f: "map_of (colls shop1 CancellationRequests) 12 = Some request0"
    by (simp add: shop1_colls)
  have g: "find_one PendingOrders 10 shop1 = None"
    by (simp add: find_one_def shop1_colls)
  note T = reject_keeps_order_removed[OF oidC_parse f, of 9 "[]"]
  from T have c: "code (fst (process_cancellation_request 9 oidC ''reject'' [] shop1)) = 200"
    and k: "\<forall>c. c \<noteq> CancellationRequests \<longrightarrow>
             colls (snd (process_cancellation_request 9 oidC ''reject'' [] shop1)) c = colls shop1 c"
    and h: "\<forall>c i. c \<noteq> CancellationRequests \<and> find_one c i shop1 = None \<longrightarrow>
             find_one c i (snd (process_cancellation_request 9 oidC ''reject'' [] shop1)) = None"
    by simp_all
  from k have k1: "colls (snd (process_cancellation_request 9 oidC ''reject'' [] shop1)) PendingOrders = []"
    and k2: "colls (snd (process_cancellation_request 9 oidC ''reject'' [] shop1)) AcceptedOrders = []"
    and k3: "colls (snd (process_cancellation_request 9 oidC ''reject'' [] shop1)) CancelledOrders = []"
    by (simp_all add: shop1_colls)
  from h g have k4: "find_one PendingOrders 10
      (snd (process_cancellation_request 9 oidC ''reject'' [] shop1)) = None"
    by simp
  show ?thesis
    by (intro conjI oidC_parse f c k1 k2 k3 k4)
qed

lemma approve_finds_nothing:
  assumes oid: "oid_of_string requestId = Some rid"
    and found: "map_of (colls s CancellationRequests) rid = Some request"
    and orig: "oid_of_val (map_of request ''originalOrderId'') = Oid i"
    and gone: "map_of (colls s PendingOrders) i = None" "map_of (colls s AcceptedOrders) i = None"
  shows "process_cancellation_request now requestId ''approve'' staffNotes s =
      (json 200 [(''success'', JBool True),
                 (''message'', JStr (''Cancellation request '' @ ''approve'' @ ''d successfully'')),
                 (''status'', JStr ''approved'')],
       update_one_set CancellationRequests rid
         [(''status'', JStr ''approved''), (''processedAt'', JDate now),
          (''processedBy'', JStr ''staff''), (''staffNotes'', JStr staffNotes)] s)"
proof -
  let ?s1 = "update_one_set CancellationRequests rid
         [(''status'', JStr ''approved''), (''processedAt'', JDate now),
          (''processedBy'', JStr ''staff''), (''staffNotes'', JStr staffNotes)] s"
  have ff: "find_first [PendingOrders, AcceptedOrders] i ?s1 = None"
    using gone by (simp add: find_one_def update_one_set_colls)
  have mv: "move_to_cancelled now requestId ((''_id'', JId rid) # request) ?s1 = Some ?s1"
    using orig by (simp add: move_to_cancelled_def ff del: find_first.simps)
  show ?thesis
    by (simp add: process_cancellation_request_def oid find_one_def found Let_def mv
        del: set_fields.simps)
qed

text \<open>
  C1 at a concrete input.  The customer's cancel-request for the order of \<open>shop0\<close>
  succeeds and stores \<open>request0\<close> with status \<^verbatim>\<open>pending_review\<close>.  The staff
  decision \<^verbatim>\<open>approve\<close> on it answers 200 with status \<^verbatim>\<open>approved\<close>, but
  \<^verbatim>\<open>CancelledOrders\<close> stays empty: the approve branch looks for the order in
  \<^verbatim>\<open>PendingOrders\<close> and \<^verbatim>\<open>AcceptedOrders\<close>, from where cancel-request has
  already removed it, and never reads the snapshot.
\<close>

theorem approve_creates_no_cancelled_order:
  "cancel_request engine0 7 oidA ''changed my mind'' [] shop0 =
     (json 200
        [(''success'', JBool True),
         (''message'', JStr ''Cancellation request submitted successfully''),
         (''requestId'', JId 12),
         (''status'', JStr ''pending_review'')],
      shop1)
   \<and> map_of (colls shop1 CancellationRequests) 12 = Some request0
   \<and> map_of request0 ''status'' = Some (JStr ''pending_review'')
   \<and> code (fst (process_cancellation_request 9 oidC ''approve'' [] shop1)) = 200
   \<and> map_of (body (fst (process_cancellation_request 9 oidC ''approve'' [] shop1))) ''status''
       = Some (JStr ''approved'')
   \<and> colls (snd (process_cancellation_request 9 oidC ''approve'' [] shop1)) CancelledOrders = []
   \<and> colls (snd (process_cancellation_request 9 oidC ''approve'' [] shop1)) PendingOrders = []
   \<and> colls (snd (process_cancellation_request 9 oidC ''approve'' [] shop1)) AcceptedOrders = []"
proof -
  have f: "map_of (colls shop1 CancellationRequests) 12 = Some request0"
    by (simp add: shop1_colls)
  have orig: "oid_of_val (map_of request0 ''originalOrderId'') = Oid 10"
    by (simp add: request0_fields oidA_parse)
  have gone: "map_of (colls shop1 PendingOrders) 10 = None"
    "map_of (colls shop1 AcceptedOrders) 10 = None"
    by (simp_all add: shop1_colls)
  note run = approve_finds_nothing[OF oidC_parse f orig gone, of 9 "[]"]
  show ?thesis
    unfolding run
    by (simp add: shop1_run f request0_fields json_def update_one_set_colls shop1_colls
        del: set_fields.simps)
qed

subsection \<open>Check for pending cancellation requests\<close>

lemma objectIds_ids: "x \<in> set (objectIds ids) \<Longrightarrow> \<exists>i. x = JId i"
  by (auto simp: objectIds_def split: oid_result.splits)

lemma string_not_in_objectIds: "\<not> js_in (objectIds ids) (Some (JStr t))"
  by (auto simp: js_in_def dest: objectIds_ids)

lemma string_order_idsD:
  assumes "string_order_ids s" and "e \<in> set (colls s CancellationRequests)"
  shows "\<exists>t. map_of (snd e) ''originalOrderId'' = Some (JStr t)"
proof -
  from assms have c: "(case map_of (snd e) ''originalOrderId'' of
                        Some (JStr t) \<Rightarrow> True | _ \<Rightarrow> False)"
    by (simp add: string_order_ids_def list_all_iff)
  show ?thesis
  proof (cases "map_of (snd e) ''originalOrderId''")
    case None
    with c show ?thesis by simp
  next
    case (Some v)
    with c show ?thesis by (cases v) simp_all
  qed
qed

lemma no_pending_matches:
  assumes "string_order_ids s"
  shows "pendingCancellations ids s = []"
proof -
  have "\<not> js_in (objectIds ids) (map_of (snd e) ''originalOrderId'')"
    if "e \<in> set (colls s CancellationRequests)" for e
  proof -
    from string_order_idsD[OF assms that] obtain t
      where "map_of (snd e) ''originalOrderId'' = Some (JStr t)" by blast
    then show ?thesis by (simp add: string_not_in_objectIds)
  qed
  then show ?thesis
    by (simp add: pendingCancellations_def filter_empty_conv)
qed

lemma cancel_commit_requests:
  assumes present: "find_one src i s = Some order"
    and src: "src = PendingOrders \<or> src = AcceptedOrders"
  shows "colls (snd (cancel_commit (\<lambda>s. s) E now orderId reason src i request s))
           CancellationRequests = colls s CancellationRequests @ [(next_id s, request)]"
proof -
  let ?s1 = "snd (insert_one CancellationRequests request s)"
  from src have sne: "src \<noteq> CancellationRequests" "src \<noteq> StaffNotifications" by auto
  from present have "map_of (colls ?s1 src) i \<noteq> None"
    using sne by (auto simp: insert_one_colls find_one_def)
  then have one: "fst (delete_one src i ?s1) = 1"
    by (simp add: delete_one_fst)
  show ?thesis
    using sne
    by (simp add: cancel_commit_def case_prod_beta insert_one_fst one insert_one_colls
        delete_one_colls)
qed

text \<open>
  C10.  In a database whose cancellation requests all hold \<^verbatim>\<open>originalOrderId\<close> as a
  string, a cancel-request that is accepted succeeds and appends a request with status
  \<^verbatim>\<open>pending_review\<close> whose \<^verbatim>\<open>originalOrderId\<close> is the raw id string; afterwards
  check-cancellation-requests answers every list of order ids, also one that includes the
  order's id, with an empty \<^verbatim>\<open>cancellationMap\<close>: the query compares
  \<^verbatim>\<open>originalOrderId\<close> with ObjectIds only, and a string equals none.
\<close>

theorem pending_request_never_reported:
  assumes inv: "string_order_ids s"
    and prep: "cancel_prepare E now orderId reason additionalComments s = Inr (src, i, request)"
  shows "code (fst (cancel_request E now orderId reason additionalComments s)) = 200
       \<and> colls (snd (cancel_request E now orderId reason additionalComments s)) CancellationRequests
           = colls s CancellationRequests @ [(next_id s, request)]
       \<and> map_of request ''status'' = Some (JStr ''pending_review'')
       \<and> map_of request ''originalOrderId'' = Some (JStr orderId)
       \<and> string_order_ids (snd (cancel_request E now orderId reason additionalComments s))
       \<and> (\<forall>ids. check_cancellation_requests E (Some (JArr ids))
                    (snd (cancel_request E now orderId reason additionalComments s))
                = (json 200 [(''success'', JBool True), (''cancellationMap'', JObj [])],
                   snd (cancel_request E now orderId reason additionalComments s)))"
proof -
  let ?s' = "snd (cancel_request E now orderId reason additionalComments s)"
  from cancel_prepare_Inr[OF prep] obtain order currentStatus where
    o: "find_first [PendingOrders, AcceptedOrders] i s = Some (src, order)"
    and rq: "request = cancellationRequest E now orderId reason additionalComments src
                          (JStr currentStatus) order"
    by blast
  from find_first_Some[OF o] have src: "src = PendingOrders \<or> src = AcceptedOrders"
    and fo: "find_one src i s = Some order" by auto
  have seq: "cancel_request E now orderId reason additionalComments s
               = cancel_commit (\<lambda>s. s) E now orderId reason src i request s"
    by (simp add: cancel_request_def cancel_request_with_def prep)
  have st: "map_of request ''status'' = Some (JStr ''pending_review'')"
    and oi: "map_of request ''originalOrderId'' = Some (JStr orderId)"
    unfolding rq by (rule cancel_request_fields)+
  have cr: "colls ?s' CancellationRequests = colls s CancellationRequests @ [(next_id s, request)]"
    unfolding seq by (rule cancel_commit_requests[OF fo src])
  have c200: "code (fst (cancel_request E now orderId reason additionalComments s)) = 200"
  proof -
    let ?s1 = "snd (insert_one CancellationRequests request s)"
    from src have sne: "src \<noteq> CancellationRequests" by auto
    from fo have "map_of (colls ?s1 src) i \<noteq> None"
      using sne by (auto simp: insert_one_colls find_one_def)
    then have one: "fst (delete_one src i ?s1) = 1"
      by (simp add: delete_one_fst)
    show ?thesis
      unfolding seq by (simp add: cancel_commit_def case_prod_beta one json_def)
  qed
  have inv': "string_order_ids ?s'"
    using inv oi by (simp add: string_order_ids_def cr)
  have chk: "check_cancellation_requests E (Some (JArr ids)) ?s'
                = (json 200 [(''success'', JBool True), (''cancellationMap'', JObj [])], ?s')" for ids
    by (simp add: check_cancellation_requests_def no_pending_matches[OF inv'])
  from chk have chk': "\<forall>ids. check_cancellation_requests E (Some (JArr ids)) ?s'
                = (json 200 [(''success'', JBool True), (''cancellationMap'', JObj [])], ?s')"
    by blast
  show ?thesis
    by (intro conjI c200 cr st oi inv' chk')
qed

text \<open>
  After Scenario C, the check for the order's own id reports no pending cancellation.
\<close>

theorem pending_request_never_reported_witness:
  "string_order_ids shop0
   \<and> cancel_prepare engine0 7 oidA ''changed my mind'' [] shop0 = Inr (PendingOrders, 10, request0)
   \<and> colls shop1 CancellationRequests = [(12, request0)]
   \<and> map_of request0 ''originalOrderId'' = Some (JStr oidA)
   \<and> check_cancellation_requests engine0 (Some (JArr [JStr oidA])) shop1
       = (json 200 [(''success'', JBool True), (''cancellationMap'', JObj [])], shop1)"
proof -
  have inv: "string_order_ids shop0"
    by (simp add: string_order_ids_def shop0_def)
  have r: "''changed my mind'' \<noteq> []" by simp
  have prep: "cancel_prepare engine0 7 oidA ''changed my mind'' [] shop0
                = Inr (PendingOrders, 10, request0)"
    by (simp add: cancel_prepare_shop0[OF r] request0_def)
  note T = pending_request_never_reported[OF inv prep, folded shop1_def]
  from T have a: "colls shop1 CancellationRequests
                    = colls shop0 CancellationRequests @ [(next_id shop0, request0)]"
    and b: "map_of request0 ''originalOrderId'' = Some (JStr oidA)"
    and c: "\<forall>ids. check_cancellation_requests engine0 (Some (JArr ids)) shop1
                = (json 200 [(''success'', JBool True), (''cancellationMap'', JObj [])], shop1)"
    by simp_all
  from a have a': "colls shop1 CancellationRequests = [(12, request0)]"
    by (simp add: shop0_def)
  from c have c': "check_cancellation_requests engine0 (Some (JArr [JStr oidA])) shop1
       = (json 200 [(''success'', JBool True), (''cancellationMap'', JObj [])], shop1)"
    by blast
  show ?thesis
    by (intro conjI inv prep a' b c')
qed

subsection \<open>Decision on a return request\<close>

lemma try_insert_colls:
  "colls (try_insert fails c d s) c' =
     (if c' = c \<and> \<not> fails then colls s c @ [(next_id s, d)] else colls s c')"
  by (simp add: try_insert_def insert_one_colls)

lemma locate_original_Some:
  assumes "locate_original rr s = Some (i, c, d)"
  shows "c \<in> {DeliveredOrders, AcceptedOrders, PendingOrders, Orders} \<and> find_one c i s = Some d"
proof -
  from assms obtain cd where
    f: "find_first [DeliveredOrders, AcceptedOrders, PendingOrders, Orders] i s = Some cd"
    and cd: "cd = (c, d)"
    by (auto simp: locate_original_def split: oid_result.splits)
  from f cd have "c \<in> set [DeliveredOrders, AcceptedOrders, PendingOrders, Orders]
      \<and> find_one c i s = Some d"
    by (intro find_first_Some) simp
  then show ?thesis by simp
qed

text \<open>The database after the archive, the removal of the request and of the order.\<close>

lemma process_return_run:
  fixes E :: builtins and now :: int and requestId action staffNotes returnImage :: string
    and user_fails staff_fails :: bool and s :: db and rid :: oid and rr0 :: doc
  assumes act: "action = ''approve'' \<or> action = ''reject''"
    and oid: "oid_of_string requestId = Some rid"
    and found: "map_of (colls s ReturnRequests) rid = Some rr0"
  defines "rr \<equiv> (''_id'', JId rid) # rr0"
  defines "located \<equiv> locate_original rr s"
  defines "archived \<equiv> archivedRecord E now rid action staffNotes returnImage rr located"
  defines "s2 \<equiv> snd (delete_one ReturnRequests rid (snd (insert_one ReturnedOrders archived s)))"
  defines "s3 \<equiv> (case located of
                    Some (i, c, d) \<Rightarrow> if action = ''approve'' then snd (delete_one c i s2) else s2
                  | None \<Rightarrow> s2)"
  defines "userId \<equiv> notified_user rr located"
  defines "s4 \<equiv> (if truthy userId then
                    try_insert user_fails UserNotifications
                      (userNotification E now requestId action staffNotes rr userId archived) s3
                  else s3)"
  shows "process_return_request user_fails staff_fails E now requestId action staffNotes returnImage s
     = (json 200
          [(''success'', JBool True),
           (''message'', JStr (''Return request '' @ action @ ''d successfully'')),
           (''status'', JStr (decisionStatus action)),
           (''archivedId'', JId (next_id s))],
        try_insert staff_fails StaffNotifications
          (staffNotification E now requestId action staffNotes rr (next_id s) archived) s4)"
proof -
  have a: "action \<in> set [''approve'', ''reject'']" using act by auto
  have fo: "find_one ReturnRequests rid s = Some rr"
    by (simp add: find_one_def found rr_def)
  have one: "fst (delete_one ReturnRequests rid (snd (insert_one ReturnedOrders archived s))) = 1"
    by (simp add: delete_one_fst insert_one_colls found)
  show ?thesis
    unfolding process_return_request_def
    using a
    by (simp only: if_not_P not_not oid option.case fo Let_def case_prod_beta insert_one_fst
        one located_def[symmetric] archived_def[symmetric] s2_def[symmetric] s3_def[symmetric]
        userId_def[symmetric] s4_def[symmetric])
qed


lemma archived_fields:
  "map_of (archivedRecord E now rid action staffNotes returnImage rr located) ''staffDecision''
     = Some (JStr (decisionStatus action))"
  "map_of (archivedRecord E now rid action staffNotes returnImage rr located) ''customerImage''
     = Some (stored (js_or (map_of rr ''returnImage'') (Some JNull)))"
  by (simp_all add: archivedRecord_def Let_def)

lemma stored_or_null: "truthy img \<or> img = JNull \<Longrightarrow> stored (js_or (Some img) (Some JNull)) = img"
  by (auto simp: js_or_def)

text \<open>
  C8.  A decision (approve or reject) on an existing return request, in a database whose
  ids all come from the id supply, succeeds and archives a record in
  \<^verbatim>\<open>ReturnedOrders\<close> whose \<^verbatim>\<open>staffDecision\<close> is \<^verbatim>\<open>accepted\<close> on approve and
  \<^verbatim>\<open>rejected\<close> on reject and whose \<^verbatim>\<open>customerImage\<close> is the request's
  \<^verbatim>\<open>returnImage\<close> (the image of the submission, or \<^verbatim>\<open>null\<close> when none was
  submitted); the return request is deleted; on approve the original order is deleted from
  the collection where it was found; on reject every order collection is unchanged.  This
  holds whether or not the notification inserts fail.
\<close>

theorem return_decision_archives:
  fixes E :: builtins and now :: int and requestId action staffNotes returnImage :: string
    and user_fails staff_fails :: bool and s :: db and rid :: oid and rr0 :: doc
  assumes fresh: "ids_fresh s"
    and act: "action = ''approve'' \<or> action = ''reject''"
    and oid: "oid_of_string requestId = Some rid"
    and found: "map_of (colls s ReturnRequests) rid = Some rr0"
  defines "R \<equiv> process_return_request user_fails staff_fails E now requestId action staffNotes
                 returnImage s"
  shows "code (fst R) = 200
       \<and> map_of (body (fst R)) ''status''
           = Some (JStr (if action = ''approve'' then ''accepted'' else ''rejected''))
       \<and> map_of (body (fst R)) ''archivedId'' = Some (JId (next_id s))
       \<and> (\<exists>a. map_of (colls (snd R) ReturnedOrders) (next_id s) = Some a
              \<and> map_of a ''staffDecision''
                  = Some (JStr (if action = ''approve'' then ''accepted'' else ''rejected''))
              \<and> map_of a ''customerImage''
                  = Some (stored (js_or (map_of rr0 ''returnImage'') (Some JNull)))
              \<and> (\<forall>img. map_of rr0 ''returnImage'' = Some img \<and> (truthy img \<or> img = JNull)
                     \<longrightarrow> map_of a ''customerImage'' = Some img))
       \<and> map_of (colls (snd R) ReturnRequests) rid = None
       \<and> (action = ''approve'' \<longrightarrow>
            (\<forall>i c d. locate_original ((''_id'', JId rid) # rr0) s = Some (i, c, d)
                 \<longrightarrow> map_of (colls (snd R) c) i = None))
       \<and> (action = ''reject'' \<longrightarrow>
            (\<forall>c. c \<noteq> ReturnedOrders \<and> c \<noteq> ReturnRequests \<and> c \<noteq> UserNotifications
                  \<and> c \<noteq> StaffNotifications \<longrightarrow> colls (snd R) c = colls s c))"
proof -
  let ?rr = "(''_id'', JId rid) # rr0"
  let ?loc = "locate_original ?rr s"
  let ?arch = "archivedRecord E now rid action staffNotes returnImage ?rr ?loc"
  let ?s2 = "snd (delete_one ReturnRequests rid (snd (insert_one ReturnedOrders ?arch s)))"
  let ?s3 = "(case ?loc of
                Some (i, c, d) \<Rightarrow> if action = ''approve'' then snd (delete_one c i ?s2) else ?s2
              | None \<Rightarrow> ?s2)"
  let ?uid = "notified_user ?rr ?loc"
  let ?s4 = "(if truthy ?uid then
                try_insert user_fails UserNotifications
                  (userNotification E now requestId action staffNotes ?rr ?uid ?arch) ?s3
              else ?s3)"
  let ?s5 = "try_insert staff_fails StaffNotifications
               (staffNotification E now requestId action staffNotes ?rr (next_id s) ?arch) ?s4"
  note run = process_return_run[OF act oid found, of user_fails staff_fails E now staffNotes returnImage]
  have R1: "fst R = json 200
          [(''success'', JBool True),
           (''message'', JStr (''Return request '' @ action @ ''d successfully'')),
           (''status'', JStr (decisionStatus action)),
           (''archivedId'', JId (next_id s))]"
    and R2: "snd R = ?s5"
    unfolding R_def run by simp_all
  have c2: "colls ?s2 c =
      (if c = ReturnRequests then filter (\<lambda>e. fst e \<noteq> rid) (colls s ReturnRequests)
       else if c = ReturnedOrders then colls s ReturnedOrders @ [(next_id s, ?arch)]
       else colls s c)" for c
    by (simp add: delete_one_colls insert_one_colls)
  have bk5: "colls ?s5 c = colls ?s3 c" if "c \<noteq> UserNotifications" "c \<noteq> StaffNotifications" for c
    using that by (simp add: try_insert_colls)
  have c3ro: "colls ?s3 ReturnedOrders = colls ?s2 ReturnedOrders"
    and c3rr: "colls ?s3 ReturnRequests = colls ?s2 ReturnRequests"
  proof -
    show "colls ?s3 ReturnedOrders = colls ?s2 ReturnedOrders"
    proof (cases ?loc)
      case None
      then show ?thesis by simp
    next
      case (Some t)
      obtain i c d where t: "t = (i, c, d)" by (cases t)
      from locate_original_Some[OF Some[unfolded t]] have "c \<noteq> ReturnedOrders" by auto
      then show ?thesis unfolding Some t by (simp add: delete_one_colls)
    qed
    show "colls ?s3 ReturnRequests = colls ?s2 ReturnRequests"
    proof (cases ?loc)
      case None
      then show ?thesis by simp
    next
      case (Some t)
      obtain i c d where t: "t = (i, c, d)" by (cases t)
      from locate_original_Some[OF Some[unfolded t]] have "c \<noteq> ReturnRequests" by auto
      then show ?thesis unfolding Some t by (simp add: delete_one_colls)
    qed
  qed
  have ro: "map_of (colls (snd R) ReturnedOrders) (next_id s) = Some ?arch"
    unfolding R2 using fresh_lookup[OF fresh, of ReturnedOrders]
    by (simp add: bk5 c3ro c2 map_of_snoc del: map_of_append)
  have rrq: "map_of (colls (snd R) ReturnRequests) rid = None"
    unfolding R2 by (simp add: bk5 c3rr c2 map_of_filter_fst)
  have img: "map_of ?rr ''returnImage'' = map_of rr0 ''returnImage''" by simp
  have ds: "decisionStatus action = (if action = ''approve'' then ''accepted'' else ''rejected'')"
    by (simp add: decisionStatus_def)
  have A: "\<exists>a. map_of (colls (snd R) ReturnedOrders) (next_id s) = Some a
              \<and> map_of a ''staffDecision''
                  = Some (JStr (if action = ''approve'' then ''accepted'' else ''rejected''))
              \<and> map_of a ''customerImage''
                  = Some (stored (js_or (map_of rr0 ''returnImage'') (Some JNull)))
              \<and> (\<forall>img. map_of rr0 ''returnImage'' = Some img \<and> (truthy img \<or> img = JNull)
                     \<longrightarrow> map_of a ''customerImage'' = Some img)"
    using ro by (intro exI[of _ ?arch]) (auto simp: archived_fields ds img stored_or_null)
  have B: "\<forall>i c d. ?loc = Some (i, c, d) \<longrightarrow> map_of (colls (snd R) c) i = None"
    if ap: "action = ''approve''"
  proof (intro allI impI)
    fix i c d assume l: "?loc = Some (i, c, d)"
    from locate_original_Some[OF l]
    have cne: "c \<noteq> UserNotifications" "c \<noteq> StaffNotifications" by auto
    have e3: "?s3 = snd (delete_one c i ?s2)"
      using l ap by simp
    have "colls (snd R) c = colls ?s3 c"
      unfolding R2 by (rule bk5[OF cne])
    also have "\<dots> = filter (\<lambda>e. fst e \<noteq> i) (colls ?s2 c)"
      unfolding e3 by (simp add: delete_one_colls)
    finally show "map_of (colls (snd R) c) i = None"
      by (simp add: map_of_filter_fst)
  qed
  have C: "\<forall>c. c \<noteq> ReturnedOrders \<and> c \<noteq> ReturnRequests \<and> c \<noteq> UserNotifications
                  \<and> c \<noteq> StaffNotifications \<longrightarrow> colls (snd R) c = colls s c"
    if rj: "action = ''reject''"
  proof (intro allI impI)
    fix c assume c: "c \<noteq> ReturnedOrders \<and> c \<noteq> ReturnRequests \<and> c \<noteq> UserNotifications
                  \<and> c \<noteq> StaffNotifications"
    have ne: "''reject'' \<noteq> ''approve''" by simp
    have s3: "?s3 = ?s2"
      using rj by (simp split: option.splits)
    from c have "colls (snd R) c = colls ?s3 c"
      unfolding R2 by (intro bk5) simp_all
    also have "\<dots> = colls ?s2 c" by (simp only: s3)
    also have "\<dots> = colls s c" using c by (simp only: c2 if_False)
    finally show "colls (snd R) c = colls s c" .
  qed
  have c200: "code (fst R) = 200" and st: "map_of (body (fst R)) ''status''
           = Some (JStr (if action = ''approve'' then ''accepted'' else ''rejected''))"
    and ai: "map_of (body (fst R)) ''archivedId'' = Some (JId (next_id s))"
    unfolding R1 by (simp_all add: json_def ds)
  from B have B': "action = ''approve'' \<longrightarrow>
            (\<forall>i c d. ?loc = Some (i, c, d) \<longrightarrow> map_of (colls (snd R) c) i = None)" by blast
  from C have C': "action = ''reject'' \<longrightarrow>
            (\<forall>c. c \<noteq> ReturnedOrders \<and> c \<noteq> ReturnRequests \<and> c \<noteq> UserNotifications
                  \<and> c \<noteq> StaffNotifications \<longrightarrow> colls (snd R) c = colls s c)" by blast
  show ?thesis
    by (intro conjI c200 st ai A rrq B' C')
qed


lemma returns1_fresh: "ids_fresh returns1"
  by (simp add: ids_fresh_def returns1_def)

lemma returns1_request: "map_of (colls returns1 ReturnRequests) 12 = Some return_request0"
  by (simp add: returns1_def)

lemma returns1_located:
  "locate_original ((''_id'', JId 12) # return_request0) returns1
     = Some (10, DeliveredOrders, (''_id'', JId 10) # delivered0)"
  by (simp add: locate_original_def return_request0_def oidA_parse find_one_def returns1_def)

text \<open>
  Scenario E on \<open>returns1\<close>: accepted, the archive has \<^verbatim>\<open>staffDecision\<close>
  \<^verbatim>\<open>accepted\<close> and the submitted image, and order 10 leaves
  \<^verbatim>\<open>DeliveredOrders\<close>; rejected, the order stays there unchanged.
\<close>

theorem return_decision_archives_witness:
  "ids_fresh returns1 \<and> oid_of_string oidC = Some 12
   \<and> map_of (colls returns1 ReturnRequests) 12 = Some return_request0
   \<and> locate_original ((''_id'', JId 12) # return_request0) returns1
       = Some (10, DeliveredOrders, (''_id'', JId 10) # delivered0)
   \<and> (\<exists>a. map_of (colls (snd (process_return_request False False engine0 9 oidC ''approve'' [] []
                                  returns1)) ReturnedOrders) 13 = Some a
          \<and> map_of a ''staffDecision'' = Some (JStr ''accepted'')
          \<and> map_of a ''customerImage'' = Some (JStr ''data:image/png;base64,AAAA''))
   \<and> map_of (colls (snd (process_return_request False False engine0 9 oidC ''approve'' [] []
                           returns1)) ReturnRequests) 12 = None
   \<and> map_of (colls (snd (process_return_request False False engine0 9 oidC ''approve'' [] []
                           returns1)) DeliveredOrders) 10 = None
   \<and> colls (snd (process_return_request False False engine0 9 oidC ''reject'' [] [] returns1))
        DeliveredOrders = [(10, delivered0)]"
proof -
  have a1: "''approve'' = ''approve'' \<or> ''approve'' = ''reject''" by simp
  have a2: "''reject'' = ''approve'' \<or> ''reject'' = ''reject''" by simp
  have n: "next_id returns1 = 13" by (simp add: returns1_def)
  have img: "map_of return_request0 ''returnImage'' = Some (JStr ''data:image/png;base64,AAAA'')"
    by (simp add: return_request0_def)
  have tr: "truthy (JStr ''data:image/png;base64,AAAA'')" by simp
  note T1 = return_decision_archives[OF returns1_fresh a1 oidC_parse returns1_request,
      of False False engine0 9 "[]" "[]"]
  note T2 = return_decision_archives[OF returns1_fresh a2 oidC_parse returns1_request,
      of False False engine0 9 "[]" "[]"]
  from T1 obtain a where
    a: "map_of (colls (snd (process_return_request False False engine0 9 oidC ''approve'' [] []
                              returns1)) ReturnedOrders) (next_id returns1) = Some a"
       "map_of a ''staffDecision'' = Some (JStr (if ''approve'' = ''approve'' then ''accepted''
                                                  else ''rejected''))"
       "\<forall>img. map_of return_request0 ''returnImage'' = Some img \<and> (truthy img \<or> img = JNull)
          \<longrightarrow> map_of a ''customerImage'' = Some img"
    by blast
  from a(3) img tr have ci: "map_of a ''customerImage'' = Some (JStr ''data:image/png;base64,AAAA'')"
    by blast
  from a(1,2) ci n have A: "\<exists>a. map_of (colls (snd (process_return_request False False engine0 9
        oidC ''approve'' [] [] returns1)) ReturnedOrders) 13 = Some a
          \<and> map_of a ''staffDecision'' = Some (JStr ''accepted'')
          \<and> map_of a ''customerImage'' = Some (JStr ''data:image/png;base64,AAAA'')"
    by (intro exI[of _ a]) simp
  from T1 have B: "map_of (colls (snd (process_return_request False False engine0 9 oidC
        ''approve'' [] [] returns1)) ReturnRequests) 12 = None"
    by blast
  from T1 have "\<forall>i c d. locate_original ((''_id'', JId 12) # return_request0) returns1
                   = Some (i, c, d)
                 \<longrightarrow> map_of (colls (snd (process_return_request False False engine0 9 oidC
                       ''approve'' [] [] returns1)) c) i = None"
    by blast
  with returns1_located have C: "map_of (colls (snd (process_return_request False False engine0 9
      oidC ''approve'' [] [] returns1)) DeliveredOrders) 10 = None"
    by blast
  from T2 have "\<forall>c. c \<noteq> ReturnedOrders \<and> c \<noteq> ReturnRequests \<and> c \<noteq> UserNotifications
                  \<and> c \<noteq> StaffNotifications
        \<longrightarrow> colls (snd (process_return_request False False engine0 9 oidC ''reject'' [] []
                          returns1)) c = colls returns1 c"
    by blast
  then have "colls (snd (process_return_request False False engine0 9 oidC ''reject'' [] []
                          returns1)) DeliveredOrders = colls returns1 DeliveredOrders"
    by simp
  then have D: "colls (snd (process_return_request False False engine0 9 oidC ''reject'' [] []
                          returns1)) DeliveredOrders = [(10, delivered0)]"
    by (simp add: returns1_def)
  show ?thesis
    by (intro conjI returns1_fresh oidC_parse returns1_request returns1_located A B C D)
qed

subsection \<open>Notifications of a return decision\<close>









end
